theory Spec2Isabelle
  imports Main "HOL-Library.Word"
begin

section \<open>Proxy monitor: command protocol and change monitor (main.go)\<close>

text \<open>
  A shallow embedding of \<^verbatim>\<open>main.go\<close>. Bytes are \<open>8 word\<close>, the registry integer is
  \<open>64 word\<close>, Go strings are \<open>string\<close>. The global \<^verbatim>\<open>listenerEnabled\<close> and the
  console are one record that every function takes and returns; \<^verbatim>\<open>os.Exit\<close> is a
  value of the result type; the registry, the named pipe and the clock are inputs.
\<close>

subsection \<open>Command constants and process state\<close>

type_synonym byte = "8 word"

definition NO_COMMAND :: byte where "NO_COMMAND = 0"
definition CMD_STOP :: byte where "CMD_STOP = 1"
definition CMD_QUIT :: byte where "CMD_QUIT = 2"
definition CMD_START :: byte where "CMD_START = 3"

text \<open>
  The process state outside the monitor's closure: the global flag (initially true) and
  the lines printed with \<^verbatim>\<open>fmt.Println\<close>, oldest first.
\<close>

record globals =
  listenerEnabled :: bool
  stdout :: "string list"

definition initial_globals :: globals where
  "initial_globals = \<lparr>listenerEnabled = True, stdout = []\<rparr>"

definition println :: "string \<Rightarrow> globals \<Rightarrow> globals" where
  "println s g = g\<lparr>stdout := stdout g @ [s]\<rparr>"

text \<open>A call either returns a value or ends the process with \<^verbatim>\<open>os.Exit(code)\<close>.\<close>

datatype 'a result = Return 'a | Exit int

subsection \<open>Arming, disarming and the command executor\<close>

definition startListening :: "globals \<Rightarrow> globals" where
  "startListening g = println ''Now listening to proxy changes'' (g\<lparr>listenerEnabled := True\<rparr>)"

definition stopListening :: "globals \<Rightarrow> globals" where
  "stopListening g = println ''No longer listening to proxy changes'' (g\<lparr>listenerEnabled := False\<rparr>)"

text \<open>
  \<^verbatim>\<open>executeCommand\<close>: a switch on the byte with no default case; START and STOP return
  false early when the flag already has the requested value, QUIT exits with status 0,
  and every path that leaves the switch returns true.
\<close>

definition executeCommand :: "byte \<Rightarrow> globals \<Rightarrow> bool result \<times> globals" where
  "executeCommand cmd g =
     (if cmd = CMD_START then
        (if listenerEnabled g then (Return False, g)
         else (Return True, startListening g))
      else if cmd = CMD_STOP then
        (if \<not> listenerEnabled g then (Return False, g)
         else (Return True, stopListening g))
      else if cmd = CMD_QUIT then
        (Exit 0, println ''Exiting...'' g)
      else (Return True, g))"

text \<open>The flag value a START or STOP command asks for.\<close>

definition target_state :: "byte \<Rightarrow> bool" where
  "target_state c = (c = CMD_START)"

text \<open>Two commands executed one after the other; the pair of their results.\<close>

definition execute_twice :: "byte \<Rightarrow> globals \<Rightarrow> (bool result \<times> bool result) \<times> globals" where
  "execute_twice c g =
     (case executeCommand c g of (r1, g1) \<Rightarrow>
        (case executeCommand c g1 of (r2, g2) \<Rightarrow> ((r1, r2), g2)))"

subsection \<open>Command line\<close>

text \<open>
  \<^verbatim>\<open>parseCommand\<close> on \<^verbatim>\<open>os.Args\<close> (the program name first). The second component is
  the error, \<open>None\<close> for \<^verbatim>\<open>nil\<close>.
\<close>

definition parseCommand :: "string list \<Rightarrow> byte \<times> string option" where
  "parseCommand args =
     (if length args < 2 then (NO_COMMAND, None)
      else
        (let arg = args ! 1 in
         if arg = ''-stop'' then (CMD_STOP, None)
         else if arg = ''-start'' then (CMD_START, None)
         else if arg = ''-quit'' then (CMD_QUIT, None)
         else (NO_COMMAND, Some (''unknown command: '' @ arg))))"

subsection \<open>Named pipe\<close>

text \<open>
  What a \<^verbatim>\<open>Read\<close> on a pipe connection does: it delivers bytes, fails, or never
  returns (no deadline is set on any connection). A read into the one-byte buffer
  stores the first delivered byte and leaves the buffer as it was when none arrived.
\<close>

datatype read_res = ReadOk "byte list" | ReadErr string | ReadBlocks

definition read_into :: "byte \<Rightarrow> byte list \<Rightarrow> byte" where
  "read_into buf bs = (case bs of [] \<Rightarrow> buf | b # _ \<Rightarrow> b)"

subsection \<open>Client instance\<close>

text \<open>
  The pipe as the client meets it: the error of \<^verbatim>\<open>DialPipe\<close>, the error of
  \<^verbatim>\<open>Write\<close>, and what the read of the response does.
\<close>

record client_env =
  dial_err :: "string option"
  write_err :: "string option"
  response :: read_res

text \<open>
  What one client run did: the bytes it passed to \<^verbatim>\<open>Write\<close>, the lines it printed,
  and whether it is left waiting in \<^verbatim>\<open>Read\<close>.
\<close>

record client_out =
  written :: "byte list"
  console :: "string list"
  waiting :: bool

definition client_message :: "byte \<Rightarrow> bool \<Rightarrow> string list" where
  "client_message parsedCmd success =
     (if parsedCmd = CMD_START then
        [if success then ''Started monitoring proxy settings.''
         else ''Already monitoring proxy settings.'']
      else if parsedCmd = CMD_STOP then
        [if success then ''Stopped monitoring proxy settings''
         else ''Proxy monitor is already turned off.'']
      else if parsedCmd = CMD_QUIT then [''Quitting monitor program...'']
      else [])"

definition clientMain :: "string list \<Rightarrow> client_env \<Rightarrow> client_out" where
  "clientMain args env =
     (case dial_err env of
        Some e \<Rightarrow>
          \<lparr>written = [], console = [''Failed to dial to pipe '' @ e], waiting = False\<rparr>
      | None \<Rightarrow>
         (case parseCommand args of
            (parsedCmd, Some e) \<Rightarrow>
              \<lparr>written = [],
               console = [''Failed to parse command line arguments: '' @ e],
               waiting = False\<rparr>
          | (parsedCmd, None) \<Rightarrow>
             (case write_err env of
                Some e \<Rightarrow>
                  \<lparr>written = [parsedCmd], console = [''Failed to write bytes '' @ e],
                   waiting = False\<rparr>
              | None \<Rightarrow>
                 (if parsedCmd = CMD_QUIT then
                    \<lparr>written = [parsedCmd], console = [], waiting = False\<rparr>
                  else
                    (case response env of
                       ReadBlocks \<Rightarrow>
                         \<lparr>written = [parsedCmd], console = [], waiting = True\<rparr>
                     | ReadErr e \<Rightarrow>
                         \<lparr>written = [parsedCmd],
                          console =
                            [''Failed to read response from main program instance: '' @ e],
                          waiting = False\<rparr>
                     | ReadOk bs \<Rightarrow>
                         \<lparr>written = [parsedCmd],
                          console = client_message parsedCmd (read_into parsedCmd bs = 1),
                          waiting = False\<rparr>)))))"

subsection \<open>Server instance: the pipe listener\<close>

text \<open>
  One iteration of the accept loop meets one of these: \<^verbatim>\<open>Accept\<close> fails, or it
  yields a connection with its read behaviour and the error of the write of the reply.
\<close>

datatype accept_res = AcceptErr string | Accepted read_res "string option"

text \<open>
  Where the listener stands after the given accept events: back in \<^verbatim>\<open>Accept\<close>, stuck
  in the \<^verbatim>\<open>Read\<close> of a connection, returned because the pipe could not be opened, or
  gone with the process.
\<close>

datatype pipe_status = Accepting | ReadBlocked | NotListening | ProcessExit int

text \<open>
  The \<^verbatim>\<open>for\<close> loop of \<^verbatim>\<open>listenToNamedPipe\<close>. The body runs in the loop's own
  goroutine: accept, read one byte, execute, write one byte, close, and only then accept
  again. \<open>buffer\<close> is the one-byte buffer allocated before the loop; \<open>ws\<close> collects, for
  each accept event in order, the bytes passed to \<^verbatim>\<open>Write\<close> on that connection.
\<close>

fun pipeLoop ::
  "accept_res list \<Rightarrow> byte \<Rightarrow> byte list list \<Rightarrow> globals \<Rightarrow> pipe_status \<times> byte list list \<times> globals"
where
  "pipeLoop [] buffer ws g = (Accepting, ws, g)"
| "pipeLoop (AcceptErr e # evs) buffer ws g =
     pipeLoop evs buffer (ws @ [[]]) (println (''Failed to read pipe input '' @ e) g)"
| "pipeLoop (Accepted ReadBlocks w # evs) buffer ws g = (ReadBlocked, ws @ [[]], g)"
| "pipeLoop (Accepted (ReadErr e) w # evs) buffer ws g =
     pipeLoop evs buffer (ws @ [[]]) (println (''Failed to read '' @ e) g)"
| "pipeLoop (Accepted (ReadOk bs) w # evs) buffer ws g =
     (let cmd = read_into buffer bs in
      case executeCommand cmd g of
        (Exit code, g1) \<Rightarrow> (ProcessExit code, ws @ [[]], g1)
      | (Return execRes, g1) \<Rightarrow>
          (let buffer1 = (if execRes then 1 else 0) in
           pipeLoop evs buffer1 (ws @ [[buffer1]])
             (case w of
                None \<Rightarrow> g1
              | Some e \<Rightarrow> println (''Failed to write pipe response: '' @ e) g1)))"


subsection \<open>Server instance: the registry monitor\<close>

text \<open>
  A registry read returns a value together with an error. \<^verbatim>\<open>registry.ErrNotExist\<close> is
  the one error the code tells apart. The registry package returns the zero value
  (\<open>0\<close>, the empty string) beside an error.
\<close>

datatype reg_error = ErrNotExist | ErrOther string

definition error_text :: "reg_error \<Rightarrow> string" where
  "error_text e =
     (case e of
        ErrNotExist \<Rightarrow> ''The system cannot find the file specified.''
      | ErrOther s \<Rightarrow> s)"

text \<open>
  What one poll tick meets: a write to the global flag by another goroutine since the
  previous tick (the pipe listener and the tray menu run concurrently), the formatted
  time, and the results of the two registry reads.
\<close>

record tick =
  flag_write :: "bool option"
  now :: string
  proxyEnable_read :: "64 word \<times> reg_error option"
  proxyServer_read :: "string \<times> reg_error option"

text \<open>
  The variables captured by the closure \<^verbatim>\<open>checkForChanges\<close>: the two last known values
  and the log file, as the list of lines appended to it.
\<close>

record monitor =
  lastProxyEnable :: "64 word"
  lastProxyServer :: string
  logFile :: "string list"

definition initial_monitor :: monitor where
  "initial_monitor = \<lparr>lastProxyEnable = 0, lastProxyServer = [], logFile = []\<rparr>"

definition log_off :: "string \<Rightarrow> string" where
  "log_off formattedTime = formattedTime @ [CHR 0x09] @ ''proxy off'' @ [CHR 0x0A]"

definition log_on :: "string \<Rightarrow> string \<Rightarrow> string" where
  "log_on formattedTime proxyServer =
     formattedTime @ [CHR 0x09] @ ''proxy on, '' @ proxyServer @ [CHR 0x0A]"

definition fprintf :: "string \<Rightarrow> monitor \<Rightarrow> monitor" where
  "fprintf line m = m\<lparr>logFile := logFile m @ [line]\<rparr>"

text \<open>
  \<^verbatim>\<open>checkForChanges\<close>; the boolean is its return value (true: keep polling). The
  \<^verbatim>\<open>ErrNotExist\<close> branch assigns the empty string to \<^verbatim>\<open>lastProxyServer\<close>, as the
  source does, before the comparison.
\<close>

definition checkForChanges :: "tick \<Rightarrow> globals \<Rightarrow> monitor \<Rightarrow> bool \<times> globals \<times> monitor" where
  "checkForChanges t g m =
     (if \<not> listenerEnabled g then (True, g, m)
      else
        (case proxyEnable_read t of
           (proxyEnable, Some err) \<Rightarrow>
             (False, println (''Failed to read ProxyEnable: '' @ error_text err) g, m)
         | (proxyEnable, None) \<Rightarrow>
            (case proxyServer_read t of
               (proxyServer, Some (ErrOther s)) \<Rightarrow>
                 (False,
                  println (''Failed to read ProxyServer: '' @ error_text (ErrOther s)) g, m)
             | (proxyServer, err) \<Rightarrow>
                (let m1 = (case err of
                             Some ErrNotExist \<Rightarrow> m\<lparr>lastProxyServer := []\<rparr>
                           | _ \<Rightarrow> m)
                 in
                 if proxyEnable = lastProxyEnable m1 \<and> proxyServer = lastProxyServer m1
                 then (True, g, m1)
                 else
                   (let m2 = m1\<lparr>lastProxyEnable := proxyEnable,
                                lastProxyServer := proxyServer\<rparr>
                    in
                    if proxyEnable = 0 then (True, g, fprintf (log_off (now t)) m2)
                    else (True, g, fprintf (log_on (now t) proxyServer) m2))))))"

datatype poll_status = NotStarted | Sleeping | PollReturned

definition apply_flag_write :: "bool option \<Rightarrow> globals \<Rightarrow> globals" where
  "apply_flag_write w g = (case w of None \<Rightarrow> g | Some b \<Rightarrow> g\<lparr>listenerEnabled := b\<rparr>)"

text \<open>
  The \<^verbatim>\<open>for\<close> loop of \<^verbatim>\<open>listenToProxyChanges\<close> over the ticks that happen: it returns
  at the first tick whose check returns false, and is asleep between ticks when the
  given ticks are used up.
\<close>

fun pollLoop :: "tick list \<Rightarrow> globals \<Rightarrow> monitor \<Rightarrow> poll_status \<times> globals \<times> monitor" where
  "pollLoop [] g m = (Sleeping, g, m)"
| "pollLoop (t # ts) g m =
     (case checkForChanges t (apply_flag_write (flag_write t) g) m of
        (False, g1, m1) \<Rightarrow> (PollReturned, g1, m1)
      | (True, g1, m1) \<Rightarrow> pollLoop ts g1 m1)"

text \<open>
  \<^verbatim>\<open>listenToProxyChanges\<close>: the error of \<^verbatim>\<open>registry.OpenKey\<close>, then the result of
  \<^verbatim>\<open>openLogFile\<close> (an error or the file's name), then the loop from the initial cache.
\<close>

definition listenToProxyChanges ::
  "string option \<Rightarrow> string + string \<Rightarrow> tick list \<Rightarrow> globals \<Rightarrow> poll_status \<times> globals \<times> monitor"
where
  "listenToProxyChanges openKey_err openLog ts g =
     (case openKey_err of
        Some e \<Rightarrow> (PollReturned, println (''Error opening registry key '' @ e) g, initial_monitor)
      | None \<Rightarrow>
         (case openLog of
            Inl e \<Rightarrow>
              (PollReturned, println (''Failed to open log file: '' @ e) g, initial_monitor)
          | Inr name \<Rightarrow>
              pollLoop ts (println (''Logging output to '' @ name) g) initial_monitor))"

subsection \<open>Server instance: startup\<close>

text \<open>
  \<^verbatim>\<open>serverMain\<close> up to the call of \<^verbatim>\<open>listenToProxyChanges\<close>: the boolean tells whether
  that call is reached (it is not for QUIT), the state is the one the poll loop starts
  from. The two goroutines started on the way are the pipe listener and the tray menu.
\<close>

definition serverMain_startup :: "string list \<Rightarrow> globals \<Rightarrow> bool \<times> globals" where
  "serverMain_startup args g =
     (case parseCommand args of
        (cmd, err) \<Rightarrow>
          (let g1 = (case err of
                       None \<Rightarrow> g
                     | Some e \<Rightarrow> println (''Failed to read command line arguments '' @ e) g)
           in
           if cmd = CMD_QUIT then (False, g1)
           else if cmd = NO_COMMAND \<or> cmd = CMD_START then (True, startListening g1)
           else (True, g1)))"

definition serverMain ::
  "string list \<Rightarrow> string option \<Rightarrow> string + string \<Rightarrow> tick list \<Rightarrow> globals
     \<Rightarrow> poll_status \<times> globals \<times> monitor"
where
  "serverMain args openKey_err openLog ts g =
     (case serverMain_startup args g of
        (False, g1) \<Rightarrow> (NotStarted, g1, initial_monitor)
      | (True, g1) \<Rightarrow> listenToProxyChanges openKey_err openLog ts g1)"

subsection \<open>Conditions used in the statements\<close>

text \<open>
  The reads of a tick that make an armed check return false: the read of
  \<^verbatim>\<open>ProxyEnable\<close> fails, or the read of \<^verbatim>\<open>ProxyServer\<close> fails with an error other
  than \<^verbatim>\<open>ErrNotExist\<close>.
\<close>

definition fatal_read :: "tick \<Rightarrow> bool" where
  "fatal_read t =
     (snd (proxyEnable_read t) \<noteq> None \<or>
      (case snd (proxyServer_read t) of Some (ErrOther s) \<Rightarrow> True | _ \<Rightarrow> False))"

text \<open>
  The value of the global flag each tick of a run sees, from the flag at the start of
  the loop and the writes of the other goroutines.
\<close>

fun flags_seen :: "bool \<Rightarrow> tick list \<Rightarrow> bool list" where
  "flags_seen b [] = []"
| "flags_seen b (t # ts) =
     (case flag_write t of
        None \<Rightarrow> b # flags_seen b ts
      | Some b' \<Rightarrow> b' # flags_seen b' ts)"


section \<open>Properties\<close>

lemmas cmd_defs = NO_COMMAND_def CMD_STOP_def CMD_QUIT_def CMD_START_def

lemmas exec_defs = executeCommand_def startListening_def stopListening_def println_def

lemmas client_defs = clientMain_def parseCommand_def client_message_def read_into_def

lemmas check_defs =
  checkForChanges_def fprintf_def log_on_def log_off_def println_def error_text_def

subsection \<open>The command executor\<close>

text \<open>
  C1. For a command \<open>c\<close> that is START or STOP and any state of the flag: when the flag
  already has the value \<open>c\<close> asks for, \<open>executeCommand\<close> returns false and the state is
  unchanged; otherwise it returns true and the flag becomes its negation, which is the
  value \<open>c\<close> asks for.
\<close>

theorem executeCommand_start_stop:
  assumes "c = CMD_START \<or> c = CMD_STOP"
  shows "(listenerEnabled g = target_state c \<longrightarrow> executeCommand c g = (Return False, g)) \<and>
         (listenerEnabled g \<noteq> target_state c \<longrightarrow>
            fst (executeCommand c g) = Return True \<and>
            listenerEnabled (snd (executeCommand c g)) = (\<not> listenerEnabled g) \<and>
            listenerEnabled (snd (executeCommand c g)) = target_state c)"
  using assms by (auto simp: exec_defs target_state_def cmd_defs)

theorem executeCommand_start_stop_witness:
  "executeCommand CMD_START \<lparr>listenerEnabled = True, stdout = []\<rparr>
     = (Return False, \<lparr>listenerEnabled = True, stdout = []\<rparr>) \<and>
   fst (executeCommand CMD_STOP \<lparr>listenerEnabled = True, stdout = []\<rparr>) = Return True \<and>
   listenerEnabled (snd (executeCommand CMD_STOP \<lparr>listenerEnabled = True, stdout = []\<rparr>)) = False"
  using executeCommand_start_stop [of CMD_START "\<lparr>listenerEnabled = True, stdout = []\<rparr>"]
        executeCommand_start_stop [of CMD_STOP "\<lparr>listenerEnabled = True, stdout = []\<rparr>"]
  by (simp add: target_state_def cmd_defs)

text \<open>
  C10. For every command byte other than 1 (STOP), 2 (QUIT) and 3 (START), the NONE
  byte 0 among them, \<open>executeCommand\<close> returns true and the state is unchanged, and
  the listener, reading that byte from a connection, writes the byte 1 back and is
  ready for the next connection.
\<close>

theorem executeCommand_unknown_byte:
  assumes "cmd \<notin> {CMD_STOP, CMD_QUIT, CMD_START}"
  shows "executeCommand cmd g = (Return True, g) \<and>
         pipeLoop [Accepted (ReadOk (cmd # bs)) None] buffer ws g = (Accepting, ws @ [[1]], g)"
  using assms by (simp add: exec_defs read_into_def)

theorem executeCommand_unknown_byte_witness:
  "NO_COMMAND \<notin> {CMD_STOP, CMD_QUIT, CMD_START} \<and>
   executeCommand NO_COMMAND initial_globals = (Return True, initial_globals) \<and>
   pipeLoop [Accepted (ReadOk [NO_COMMAND]) None] 0 [] initial_globals
     = (Accepting, [[1]], initial_globals)"
proof -
  have h: "NO_COMMAND \<notin> {CMD_STOP, CMD_QUIT, CMD_START}"
    by (simp add: cmd_defs)
  show ?thesis
    using h executeCommand_unknown_byte [OF h, of initial_globals "[]" 0 "[]"] by simp
qed

text \<open>
  C9, as stated, at the server's initial state: the flag starts true, so the first
  START is already a no-op and the pair of results is (false, false).
\<close>

theorem start_twice_from_initial:
  "fst (execute_twice CMD_START initial_globals) = (Return False, Return False)"
  by (simp add: execute_twice_def exec_defs cmd_defs initial_globals_def)

text \<open>
  C9, amended. Two STARTs in a row return (not armed, false) and two STOPs in a row
  return (armed, false), where armed is the flag before the first command: the first
  result is true exactly when the flag did not have the requested value yet, and the
  second result is always false.
\<close>

theorem execute_twice_results:
  "fst (execute_twice CMD_START g) = (Return (\<not> listenerEnabled g), Return False) \<and>
   fst (execute_twice CMD_STOP g) = (Return (listenerEnabled g), Return False)"
  by (simp add: execute_twice_def exec_defs cmd_defs)

subsection \<open>The pipe listener\<close>

text \<open>
  C6. QUIT makes \<open>executeCommand\<close> end the process with status 0, whatever the state;
  a connection on which the listener reads the QUIT byte gets no byte written to it,
  and nothing after it is served.
\<close>

theorem quit_exits_without_response:
  "executeCommand CMD_QUIT g = (Exit 0, println ''Exiting...'' g) \<and>
   pipeLoop (Accepted (ReadOk (CMD_QUIT # bs)) w # evs) buffer ws g
     = (ProcessExit 0, ws @ [[]], println ''Exiting...'' g)"
  by (simp add: exec_defs read_into_def cmd_defs)







subsection \<open>The client\<close>

text \<open>
  C2, at a client started with no flag while a server is running: \<open>parseCommand\<close>
  returns \<open>NO_COMMAND\<close> without an error and the client writes the byte 0.
\<close>

theorem clientMain_no_flag_writes_zero:
  "written (clientMain [''proxy-monitor'']
      \<lparr>dial_err = None, write_err = None, response = ReadOk [1]\<rparr>) = [0] \<and>
   written (clientMain [''proxy-monitor'']
      \<lparr>dial_err = None, write_err = None, response = ReadOk [1]\<rparr>) = [NO_COMMAND]"
  by (simp add: client_defs cmd_defs)

text \<open>A client writes at most one byte, and it is one of the four command constants.\<close>

lemma clientMain_written_cases:
  "written (clientMain args env) = [] \<or>
   (\<exists>b. written (clientMain args env) = [b] \<and> b \<in> {NO_COMMAND, CMD_STOP, CMD_QUIT, CMD_START})"
  by (auto simp: client_defs Let_def split: option.splits read_res.splits)

subsection \<open>Server startup\<close>

text \<open>
  C5, at a server launched with \<^verbatim>\<open>-stop\<close>: the startup reaches the poll loop with
  the state it began with, and the flag is true there.
\<close>

theorem serverMain_stop_starts_armed:
  "serverMain_startup [''proxy-monitor'', ''-stop''] initial_globals = (True, initial_globals) \<and>
   listenerEnabled (snd (serverMain_startup [''proxy-monitor'', ''-stop''] initial_globals)) = True"
  by (simp add: serverMain_startup_def parseCommand_def cmd_defs initial_globals_def)

text \<open>Whatever the arguments, a startup that reaches the poll loop reaches it armed.\<close>

lemma serverMain_startup_armed:
  "fst (serverMain_startup args initial_globals) \<Longrightarrow>
   listenerEnabled (snd (serverMain_startup args initial_globals))"
  by (auto simp: serverMain_startup_def parseCommand_def cmd_defs initial_globals_def Let_def
       startListening_def println_def split: option.splits if_splits)

subsection \<open>The change monitor\<close>

text \<open>
  C3, at an armed tick with the cache (1, 10.0.0.1:8080) where \<^verbatim>\<open>ProxyEnable\<close> reads 1
  and \<^verbatim>\<open>ProxyServer\<close> does not exist: the cached address becomes empty and no line is
  logged.
\<close>

theorem checkForChanges_absent_address_rewrites_cache:
  "checkForChanges
     \<lparr>flag_write = None, now = ''Mon Jan  2 15:04:05 2006'',
      proxyEnable_read = (1, None), proxyServer_read = ([], Some ErrNotExist)\<rparr>
     initial_globals
     \<lparr>lastProxyEnable = 1, lastProxyServer = ''10.0.0.1:8080'', logFile = []\<rparr>
   = (True, initial_globals, \<lparr>lastProxyEnable = 1, lastProxyServer = [], logFile = []\<rparr>)"
  by (simp add: check_defs initial_globals_def)

text \<open>
  C4, at an armed tick where \<^verbatim>\<open>ProxyEnable\<close> reads 1 as cached, \<^verbatim>\<open>ProxyServer\<close> does
  not exist and the cached address is A, logged once before: the log still has that one
  line after the tick.
\<close>

theorem checkForChanges_absent_address_logs_nothing:
  "length (logFile (snd (snd (checkForChanges
     \<lparr>flag_write = None, now = ''Tue Jan  3 09:00:00 2006'',
      proxyEnable_read = (1, None), proxyServer_read = ([], Some ErrNotExist)\<rparr>
     \<lparr>listenerEnabled = True, stdout = []\<rparr>
     \<lparr>lastProxyEnable = 1, lastProxyServer = ''A'',
      logFile = [log_on ''Mon Jan  2 15:04:05 2006'' ''A'']\<rparr>)))) = 1"
  by (simp add: check_defs)

lemma checkForChanges_continue:
  "fst (checkForChanges t g m) = (\<not> (listenerEnabled g \<and> fatal_read t))"
  by (cases "proxyEnable_read t"; cases "proxyServer_read t")
     (auto simp: checkForChanges_def fatal_read_def Let_def
           split: option.splits reg_error.splits)

lemma checkForChanges_flag:
  "listenerEnabled (fst (snd (checkForChanges t g m))) = listenerEnabled g"
  by (cases "proxyEnable_read t"; cases "proxyServer_read t")
     (auto simp: checkForChanges_def Let_def println_def
           split: option.splits reg_error.splits)

lemma pollLoop_returns:
  "(fst (pollLoop ts g m) = PollReturned) =
   (\<exists>k<length ts. flags_seen (listenerEnabled g) ts ! k \<and> fatal_read (ts ! k))"
proof (induction ts arbitrary: g m)
  case Nil
  then show ?case by simp
next
  case (Cons t ts)
  let ?g0 = "apply_flag_write (flag_write t) g"
  let ?b0 = "listenerEnabled ?g0"
  obtain c g1 m1 where step: "checkForChanges t ?g0 m = (c, g1, m1)"
    by (cases "checkForChanges t ?g0 m") auto
  have c: "c = (\<not> (?b0 \<and> fatal_read t))"
    using checkForChanges_continue [of t ?g0 m] step by simp
  have g1: "listenerEnabled g1 = ?b0"
    using checkForChanges_flag [of t ?g0 m] step by simp
  have seen: "flags_seen (listenerEnabled g) (t # ts) = ?b0 # flags_seen ?b0 ts"
    by (simp add: apply_flag_write_def split: option.splits)
  have ex: "(\<exists>k<length (t # ts). (?b0 # flags_seen ?b0 ts) ! k \<and> fatal_read ((t # ts) ! k)) =
            ((?b0 \<and> fatal_read t) \<or> (\<exists>k<length ts. flags_seen ?b0 ts ! k \<and> fatal_read (ts ! k)))"
    by (auto simp: less_Suc_eq_0_disj)
  have rhs: "(\<exists>k<length (t # ts). flags_seen (listenerEnabled g) (t # ts) ! k
                \<and> fatal_read ((t # ts) ! k)) =
             ((?b0 \<and> fatal_read t) \<or> (\<exists>k<length ts. flags_seen ?b0 ts ! k \<and> fatal_read (ts ! k)))"
    unfolding seen by (rule ex)
  show ?case
  proof (cases c)
    case True
    then have "fst (pollLoop (t # ts) g m) = fst (pollLoop ts g1 m1)"
      using step by simp
    moreover have "(fst (pollLoop ts g1 m1) = PollReturned) =
                   (\<exists>k<length ts. flags_seen ?b0 ts ! k \<and> fatal_read (ts ! k))"
      using Cons.IH [of g1 m1] g1 by simp
    moreover have "\<not> (?b0 \<and> fatal_read t)"
      using True c by simp
    ultimately show ?thesis
      unfolding rhs by (simp only:) blast
  next
    case False
    then have "fst (pollLoop (t # ts) g m) = PollReturned"
      using step by simp
    moreover have "?b0 \<and> fatal_read t"
      using False c by simp
    ultimately show ?thesis
      unfolding rhs by (simp only:) blast
  qed
qed

text \<open>
  C7, as stated: \<^verbatim>\<open>ProxyEnable\<close> reads without error, \<^verbatim>\<open>ProxyServer\<close> fails with an
  error other than \<^verbatim>\<open>ErrNotExist\<close> (the value has another type), and the armed loop
  returns.
\<close>

theorem proxyServer_error_stops_loop:
  "snd (proxyEnable_read
     \<lparr>flag_write = None, now = ''Mon Jan  2 15:04:05 2006'',
      proxyEnable_read = (1, None),
      proxyServer_read = ([], Some (ErrOther ''unexpected key value type''))\<rparr>) = None \<and>
   fst (pollLoop
     [\<lparr>flag_write = None, now = ''Mon Jan  2 15:04:05 2006'',
       proxyEnable_read = (1, None),
       proxyServer_read = ([], Some (ErrOther ''unexpected key value type''))\<rparr>]
     initial_globals initial_monitor) = PollReturned"
  by (simp add: check_defs initial_globals_def apply_flag_write_def)

text \<open>
  C7, amended. A check returns false exactly when the flag is armed and either the read
  of \<^verbatim>\<open>ProxyEnable\<close> fails or the read of \<^verbatim>\<open>ProxyServer\<close> fails with an error other
  than \<^verbatim>\<open>ErrNotExist\<close>; the poll loop returns exactly when some tick of the run is such
  a tick; and a tick where \<^verbatim>\<open>ProxyEnable\<close> reads and \<^verbatim>\<open>ProxyServer\<close> does not exist
  never makes the check return false.
\<close>

theorem poll_loop_termination:
  "(fst (checkForChanges t g m) = False) = (listenerEnabled g \<and> fatal_read t) \<and>
   ((fst (pollLoop ts g m) = PollReturned) =
      (\<exists>k<length ts. flags_seen (listenerEnabled g) ts ! k \<and> fatal_read (ts ! k))) \<and>
   (snd (proxyEnable_read t) = None \<and> snd (proxyServer_read t) = Some ErrNotExist
      \<longrightarrow> fst (checkForChanges t g m) = True)"
  using checkForChanges_continue [of t g m] pollLoop_returns [of ts g m]
  by (auto simp: fatal_read_def)

theorem poll_loop_termination_witness:
  "fst (checkForChanges
     \<lparr>flag_write = None, now = ''Mon Jan  2 15:04:05 2006'',
      proxyEnable_read = (1, None), proxyServer_read = ([], Some ErrNotExist)\<rparr>
     initial_globals initial_monitor) = True \<and>
   fst (pollLoop
     [\<lparr>flag_write = None, now = ''Mon Jan  2 15:04:05 2006'',
       proxyEnable_read = (1, None), proxyServer_read = ([], Some ErrNotExist)\<rparr>,
      \<lparr>flag_write = None, now = ''Mon Jan  2 15:04:06 2006'',
       proxyEnable_read = (0, Some ErrNotExist), proxyServer_read = ([], None)\<rparr>]
     initial_globals initial_monitor) = PollReturned"
proof -
  let ?t = "\<lparr>flag_write = None, now = ''Mon Jan  2 15:04:05 2006'',
      proxyEnable_read = (1, None), proxyServer_read = ([], Some ErrNotExist)\<rparr>"
  let ?u = "\<lparr>flag_write = None, now = ''Mon Jan  2 15:04:06 2006'',
       proxyEnable_read = (0, Some ErrNotExist), proxyServer_read = ([], None)\<rparr>"
  have reads: "snd (proxyEnable_read ?t) = None \<and> snd (proxyServer_read ?t) = Some ErrNotExist"
    by simp
  have tick: "\<exists>k<length [?t, ?u]. flags_seen (listenerEnabled initial_globals) [?t, ?u] ! k
                \<and> fatal_read ([?t, ?u] ! k)"
    by (rule exI [of _ 1]) (simp add: fatal_read_def initial_globals_def)
  show ?thesis
    using poll_loop_termination [of ?t initial_globals initial_monitor "[?t, ?u]"] reads tick
    by blast
qed

end
